theory Spec2Isabelle
  imports Complex_Main
begin

section \<open>Filling a create-contingent-pool offer: amounts, allowances, preflight checks\<close>

text \<open>
  The development embeds the script that retrieves a signed create-contingent-pool offer
  and fills it (\<^verbatim>\<open>src/unnamed/part_000\<close>): the proportional fill amounts
  (lines 84-91 and 119-124), the allowance blocks (lines 107-166), the auxiliary function
  \<^verbatim>\<open>_checkConditions\<close> (lines 261-347) and the order in which \<^verbatim>\<open>main\<close>
  runs them (lines 84-193).
\<close>

subsection \<open>Amounts\<close>

text \<open>
  Every amount is an ethers \<^verbatim>\<open>BigNumber\<close>: an integer of arbitrary precision, so
  \<^verbatim>\<open>add\<close> and \<^verbatim>\<open>mul\<close> never wrap. The amounts of an offer are the decimal
  strings of \<^verbatim>\<open>uint256\<close> fields and the fill amount is the result of
  \<^verbatim>\<open>parseUnits\<close> on an unsigned literal, so all of them are natural numbers.
  \<^verbatim>\<open>div\<close> truncates, and throws on a zero divisor.
\<close>

type_synonym BigNumber = nat

type_synonym address = string

datatype error =
    DivisionByZero
  | StatusInvalid
  | StatusCancelled
  | StatusFilled
  | StatusExpired
  | InvalidParameters
  | ExceedsFillable
  | RecoveryThrew
  | InvalidSignature
  | Unauthorized
  | BelowMinimum
  | InsufficientTakerBalance
  | InsufficientMakerBalance
  | SettlementRejected

text \<open>
  The script throws \<^verbatim>\<open>new Error(message)\<close>; the constructors above stand for the
  messages below. \<open>DivisionByZero\<close> is what \<^verbatim>\<open>BigNumber.div\<close> throws,
  \<open>RecoveryThrew\<close> what \<^verbatim>\<open>verifyTypedData\<close> throws on a signature it cannot
  recover from, and \<open>SettlementRejected\<close> a fill transaction that reverts; the text of
  these three is the library's, not the script's.
\<close>

fun message :: "error \<Rightarrow> string option" where
  "message StatusInvalid = Some ''Offer is invalid because takerCollateralAmount is zero.''"
| "message StatusCancelled = Some ''Offer was cancelled.''"
| "message StatusFilled = Some ''Offer is already filled.''"
| "message StatusExpired = Some ''Offer is already expired.''"
| "message InvalidParameters = Some ''Invalid create contingent pool parameters.''"
| "message ExceedsFillable =
     Some ''Actually fillable amount is smaller than takerFillAmount.''"
| "message InvalidSignature = Some ''Invalid signature.''"
| "message Unauthorized = Some ''Offer is reserved for a different address.''"
| "message BelowMinimum = Some ''takerFillAmount is smaller than minimumTakerFillAmount.''"
| "message InsufficientTakerBalance =
     Some ''Taker has insufficient collateral token balance.''"
| "message InsufficientMakerBalance =
     Some ''Maker has insufficient collateral token balance.''"
| "message DivisionByZero = None"
| "message RecoveryThrew = None"
| "message SettlementRejected = None"

definition bn_div :: "BigNumber \<Rightarrow> BigNumber \<Rightarrow> error + BigNumber" where
  "bn_div a b = (if b = 0 then Inl DivisionByZero else Inr (a div b))"

subsection \<open>The offer\<close>

text \<open>
  The fields of \<^verbatim>\<open>OfferCreateContingentPool\<close> that the script reads. The type is
  declared in \<^verbatim>\<open>constants\<close>; its other fields (the pool parameters, the expiry,
  the salt) only travel through the signature check and the fill call.
\<close>

record OfferCreateContingentPool =
  maker :: address
  taker :: address
  makerCollateralAmount :: BigNumber
  takerCollateralAmount :: BigNumber
  minimumTakerFillAmount :: BigNumber

text \<open>Lines 87-91: the maker's side of a fill of \<open>takerFillAmount\<close>.\<close>

definition makerFillAmount :: "OfferCreateContingentPool \<Rightarrow> BigNumber \<Rightarrow> error + BigNumber" where
  "makerFillAmount offer takerFillAmount =
     bn_div (makerCollateralAmount offer * takerFillAmount) (takerCollateralAmount offer)"

text \<open>Lines 119-124: the single transfer of an account that is maker and taker at once.\<close>

definition totalCollateralFillAmount :: "OfferCreateContingentPool \<Rightarrow> BigNumber \<Rightarrow> error + BigNumber" where
  "totalCollateralFillAmount offer takerFillAmount =
     bn_div ((makerCollateralAmount offer + takerCollateralAmount offer) * takerFillAmount)
       (takerCollateralAmount offer)"

subsection \<open>The collateral token and the transactions sent\<close>

record MockERC20 =
  balanceOf :: "address \<Rightarrow> BigNumber"
  allowance :: "address \<Rightarrow> address \<Rightarrow> BigNumber"

text \<open>
  Modelled from the spec: the \<^verbatim>\<open>approve\<close> of the collateral token, a contract
  that is not among the scripts. It is the ERC20-style authorization of section 4.4:
  after \<^verbatim>\<open>approve(spender, amount)\<close> sent by \<open>owner\<close>, the allowance that
  \<open>owner\<close> grants \<open>spender\<close> reads \<open>amount\<close>; nothing else changes.
\<close>

definition approve :: "address \<Rightarrow> address \<Rightarrow> BigNumber \<Rightarrow> MockERC20 \<Rightarrow> MockERC20" where
  "approve owner spender amount tok =
     tok\<lparr>allowance := (allowance tok)(owner := (allowance tok owner)(spender := amount))\<rparr>"

text \<open>
  The state-changing transactions of the script, logged in the order they are sent:
  \<open>Approve owner spender amount\<close> and \<open>FillOffer taker takerFillAmount\<close>.
\<close>

datatype action = Approve address address BigNumber | FillOffer address BigNumber

record Chain =
  collateralToken :: MockERC20
  sent :: "action list"

text \<open>
  \<^verbatim>\<open>collateralToken.connect(owner).approve(spender, amount)\<close> followed by
  \<^verbatim>\<open>approveTx.wait()\<close>.
\<close>

definition approveTx :: "address \<Rightarrow> address \<Rightarrow> BigNumber \<Rightarrow> Chain \<Rightarrow> Chain" where
  "approveTx owner spender amount c =
     c\<lparr>collateralToken := approve owner spender amount (collateralToken c),
       sent := sent c @ [Approve owner spender amount]\<rparr>"

subsection \<open>What the settlement contract reports\<close>

text \<open>
  \<^verbatim>\<open>OfferStatus\<close> of \<^verbatim>\<open>constants\<close>, in the order of line 281
  (0 to 4), and the part of the result of
  \<^verbatim>\<open>getOfferRelevantStateCreateContingentPool\<close> that the script reads.
\<close>

datatype OfferStatus = Invalid | Cancelled | Filled | Expired | Fillable

record OfferInfo =
  status :: OfferStatus
  takerFilledAmount :: BigNumber

record RelevantStateParams =
  offerInfo :: OfferInfo
  actualTakerFillableAmount :: BigNumber
  isValidInputParamsCreateContingentPool :: bool

record DivaDomain =
  name :: string
  version :: string
  chainId :: nat
  verifyingContract :: address

text \<open>
  The deployed DIVA contract, whose source is not part of the scripts, is a parameter:
  its address, its view of an offer, and whether a fill sent by a given account is
  mined (\<open>True\<close>) or reverts. Both are read on the chain as it is at the time of the
  call, so they take the collateral token's state then. \<open>'s\<close> is the type of
  signatures.
\<close>

record 's Diva =
  diva_address :: address
  getOfferRelevantStateCreateContingentPool ::
    "MockERC20 \<Rightarrow> OfferCreateContingentPool \<Rightarrow> 's \<Rightarrow> RelevantStateParams"
  fillOfferCreateContingentPool ::
    "MockERC20 \<Rightarrow> address \<Rightarrow> OfferCreateContingentPool \<Rightarrow> 's \<Rightarrow> BigNumber \<Rightarrow> bool"

text \<open>\<^verbatim>\<open>ethers.constants.AddressZero\<close>.\<close>

definition AddressZero :: address where
  "AddressZero = ''0x0000000000000000000000000000000000000000''"

subsection \<open>The preflight checks\<close>

text \<open>
  \<^verbatim>\<open>_checkConditions\<close>, lines 261-347. Each \<^verbatim>\<open>throw\<close> ends the function,
  so the checks form one chain in the order of the source. The first argument stands for
  \<^verbatim>\<open>ethers.utils.verifyTypedData\<close> applied to the constant
  \<^verbatim>\<open>CREATE_POOL_TYPE\<close>: \<open>None\<close> when it throws, else the recovered address.
  The third argument is the chain at the time of the call, on which line 275 reads the
  contract. Addresses are compared as the strings they are.
\<close>

definition checkConditions ::
  "(DivaDomain \<Rightarrow> OfferCreateContingentPool \<Rightarrow> 's \<Rightarrow> address option) \<Rightarrow> 's Diva \<Rightarrow> Chain \<Rightarrow>
   DivaDomain \<Rightarrow> OfferCreateContingentPool \<Rightarrow> 's \<Rightarrow> address \<Rightarrow> BigNumber \<Rightarrow> BigNumber \<Rightarrow>
   BigNumber \<Rightarrow> BigNumber \<Rightarrow> error + unit" where
  "checkConditions verifyTypedData diva c divaDomain offer sig userAddress takerFillAmount'
       makerFillAmount' takerCollateralTokenBalance makerCollateralTokenBalance =
     (let relevantStateParams =
            getOfferRelevantStateCreateContingentPool diva (collateralToken c) offer sig in
      if status (offerInfo relevantStateParams) = Invalid then Inl StatusInvalid
      else if status (offerInfo relevantStateParams) = Cancelled then Inl StatusCancelled
      else if status (offerInfo relevantStateParams) = Filled then Inl StatusFilled
      else if status (offerInfo relevantStateParams) = Expired then Inl StatusExpired
      else if \<not> isValidInputParamsCreateContingentPool relevantStateParams
        then Inl InvalidParameters
      else if actualTakerFillableAmount relevantStateParams < takerFillAmount'
        then Inl ExceedsFillable
      else case verifyTypedData divaDomain offer sig of
        None \<Rightarrow> Inl RecoveryThrew
      | Some recoveredAddress \<Rightarrow>
          if recoveredAddress \<noteq> maker offer then Inl InvalidSignature
          else if taker offer \<noteq> AddressZero \<and> userAddress \<noteq> taker offer
            then Inl Unauthorized
          else if takerFilledAmount (offerInfo relevantStateParams) = 0
                  \<and> takerFillAmount' < minimumTakerFillAmount offer
            then Inl BelowMinimum
          else if takerCollateralTokenBalance < takerFillAmount'
            then Inl InsufficientTakerBalance
          else if makerCollateralTokenBalance < makerFillAmount'
            then Inl InsufficientMakerBalance
          else Inr ())"

subsection \<open>The allowance blocks\<close>

text \<open>
  The block the script repeats at lines 125-137, 140-151 and 154-165, for the allowance
  \<open>current\<close> it has read before: approve the required amount plus one and read the
  allowance again, or do nothing.
\<close>

definition setAllowanceIfInsufficient ::
  "address \<Rightarrow> address \<Rightarrow> BigNumber \<Rightarrow> BigNumber \<Rightarrow> Chain \<Rightarrow> BigNumber \<times> Chain" where
  "setAllowanceIfInsufficient owner spender current required c =
     (if current < required then
        (let c' = approveTx owner spender (required + 1) c
         in (allowance (collateralToken c') owner spender, c'))
      else (current, c))"

text \<open>
  The read of the current allowance (lines 108-115) followed by that block: the operation
  the specification calls \<^verbatim>\<open>ensureAllowance(owner, spender, required)\<close>.
\<close>

definition ensureAllowance :: "address \<Rightarrow> address \<Rightarrow> BigNumber \<Rightarrow> Chain \<Rightarrow> BigNumber \<times> Chain" where
  "ensureAllowance owner spender required c =
     setAllowanceIfInsufficient owner spender
       (allowance (collateralToken c) owner spender) required c"

text \<open>
  Lines 107-166 of \<^verbatim>\<open>main\<close>: both allowances are read first; then one approval
  sized to the combined amount when the taker is the maker, else one block per party.
  The result is \<open>(allowanceMaker, allowanceTaker)\<close> and the chain.
\<close>

definition setAllowances ::
  "address \<Rightarrow> OfferCreateContingentPool \<Rightarrow> address \<Rightarrow> BigNumber \<Rightarrow> BigNumber \<Rightarrow> Chain \<Rightarrow>
   error + (BigNumber \<times> BigNumber) \<times> Chain" where
  "setAllowances diva_addr offer takerAddress takerFillAmount' makerFillAmount' c =
     (let allowanceMaker = allowance (collateralToken c) (maker offer) diva_addr;
          allowanceTaker = allowance (collateralToken c) takerAddress diva_addr
      in if takerAddress = maker offer then
           (case totalCollateralFillAmount offer takerFillAmount' of
              Inl e \<Rightarrow> Inl e
            | Inr totalCollateralFillAmount' \<Rightarrow>
                (case setAllowanceIfInsufficient (maker offer) diva_addr allowanceMaker
                        totalCollateralFillAmount' c of
                   (allowanceMaker', c') \<Rightarrow>
                     Inr ((allowanceMaker',
                           if allowanceMaker < totalCollateralFillAmount' then allowanceMaker'
                           else allowanceTaker), c')))
         else
           (case setAllowanceIfInsufficient (maker offer) diva_addr allowanceMaker
                   makerFillAmount' c of
              (allowanceMaker', c1) \<Rightarrow>
                (case setAllowanceIfInsufficient takerAddress diva_addr allowanceTaker
                        takerFillAmount' c1 of
                   (allowanceTaker', c2) \<Rightarrow> Inr ((allowanceMaker', allowanceTaker'), c2))))"

subsection \<open>The script\<close>

text \<open>
  What the relay returns for the offer hash: the offer, its signature and the signing
  domain's chain and contract.
\<close>

record 's ApiOffer =
  offerCreateContingentPool :: OfferCreateContingentPool
  signature :: 's
  offerChainId :: nat
  offerVerifyingContract :: address

text \<open>
  \<^verbatim>\<open>main\<close>, lines 84-193, for the offer fetched from the relay, the taker's
  account and the converted fill amount: the maker amount (line 87), the balances
  (line 100), the allowances (line 107), the checks (line 169), the fill (line 186).
  An error ends the script where it is thrown; the chain returned with it holds what
  was sent until then. The log records that the fill was sent; the transfers the
  contract makes for it, and the reads and the logging after it, are left out.
\<close>

definition main ::
  "(DivaDomain \<Rightarrow> OfferCreateContingentPool \<Rightarrow> 's \<Rightarrow> address option) \<Rightarrow> 's Diva \<Rightarrow> 's ApiOffer \<Rightarrow>
   address \<Rightarrow> BigNumber \<Rightarrow> Chain \<Rightarrow> (error + BigNumber \<times> BigNumber) \<times> Chain" where
  "main verifyTypedData diva apiOffer takerAddress takerFillAmount' c =
     (let divaDomain = \<lparr>name = ''DIVA Protocol'', version = ''1'',
                        chainId = offerChainId apiOffer,
                        verifyingContract = offerVerifyingContract apiOffer\<rparr>;
          offer = offerCreateContingentPool apiOffer;
          sig = signature apiOffer
      in case makerFillAmount offer takerFillAmount' of
           Inl e \<Rightarrow> (Inl e, c)
         | Inr makerFillAmount' \<Rightarrow>
             (let collateralTokenBalanceMakerBefore = balanceOf (collateralToken c) (maker offer);
                  collateralTokenBalanceTakerBefore = balanceOf (collateralToken c) takerAddress
              in case setAllowances (diva_address diva) offer takerAddress takerFillAmount'
                        makerFillAmount' c of
                   Inl e \<Rightarrow> (Inl e, c)
                 | Inr (allowances, c') \<Rightarrow>
                     (case checkConditions verifyTypedData diva c' divaDomain offer sig
                             takerAddress takerFillAmount' makerFillAmount'
                             collateralTokenBalanceTakerBefore
                             collateralTokenBalanceMakerBefore of
                        Inl e \<Rightarrow> (Inl e, c')
                      | Inr _ \<Rightarrow>
                          (let c'' = c'\<lparr>sent := sent c' @ [FillOffer takerAddress takerFillAmount']\<rparr>
                           in if fillOfferCreateContingentPool diva (collateralToken c')
                                   takerAddress offer sig takerFillAmount'
                              then (Inr allowances, c'')
                              else (Inl SettlementRejected, c'')))))"

subsection \<open>The order of the checks, as the specification lists it\<close>

text \<open>
  Section 4.5 of the specification numbers eight checks, run in order, the first failure
  deciding the result. \<open>first_failure\<close> runs such a list; \<open>validate_spec\<close> is the list
  of section 4.5 (step 4 is the signature: recovery, then the comparison with the maker).
\<close>

fun first_failure :: "(bool \<times> error) list \<Rightarrow> error + unit" where
  "first_failure [] = Inr ()"
| "first_failure ((failed, e) # checks) = (if failed then Inl e else first_failure checks)"

definition validate_spec ::
  "OfferCreateContingentPool \<Rightarrow> RelevantStateParams \<Rightarrow> address option \<Rightarrow> address \<Rightarrow>
   BigNumber \<Rightarrow> BigNumber \<Rightarrow> BigNumber \<Rightarrow> BigNumber \<Rightarrow> error + unit" where
  "validate_spec offer state recovered requesterAddress requestedTakerAmount
       computedMakerAmount takerBalance makerBalance =
     first_failure
       [(status (offerInfo state) = Invalid, StatusInvalid),
        (status (offerInfo state) = Cancelled, StatusCancelled),
        (status (offerInfo state) = Filled, StatusFilled),
        (status (offerInfo state) = Expired, StatusExpired),
        (\<not> isValidInputParamsCreateContingentPool state, InvalidParameters),
        (actualTakerFillableAmount state < requestedTakerAmount, ExceedsFillable),
        (recovered = None, RecoveryThrew),
        (recovered \<noteq> Some (maker offer), InvalidSignature),
        (taker offer \<noteq> AddressZero \<and> requesterAddress \<noteq> taker offer, Unauthorized),
        (takerFilledAmount (offerInfo state) = 0
           \<and> requestedTakerAmount < minimumTakerFillAmount offer, BelowMinimum),
        (takerBalance < requestedTakerAmount, InsufficientTakerBalance),
        (makerBalance < computedMakerAmount, InsufficientMakerBalance)]"

subsection \<open>Reaching a check\<close>

text \<open>
  The conditions under which \<open>checkConditions\<close> gets past line 319 (status, parameters,
  fillable amount and signature all pass) and past line 327 (the taker may fill as well):
  the negations of the conditions of the \<^verbatim>\<open>if\<close>s before.
\<close>

definition reaches_taker_check ::
  "(DivaDomain \<Rightarrow> OfferCreateContingentPool \<Rightarrow> 's \<Rightarrow> address option) \<Rightarrow> 's Diva \<Rightarrow> Chain \<Rightarrow>
   DivaDomain \<Rightarrow> OfferCreateContingentPool \<Rightarrow> 's \<Rightarrow> BigNumber \<Rightarrow> bool" where
  "reaches_taker_check verifyTypedData diva c divaDomain offer sig takerFillAmount' =
     (let relevantStateParams =
            getOfferRelevantStateCreateContingentPool diva (collateralToken c) offer sig in
      status (offerInfo relevantStateParams) \<noteq> Invalid
      \<and> status (offerInfo relevantStateParams) \<noteq> Cancelled
      \<and> status (offerInfo relevantStateParams) \<noteq> Filled
      \<and> status (offerInfo relevantStateParams) \<noteq> Expired
      \<and> isValidInputParamsCreateContingentPool relevantStateParams
      \<and> \<not> actualTakerFillableAmount relevantStateParams < takerFillAmount'
      \<and> verifyTypedData divaDomain offer sig = Some (maker offer))"

definition reaches_minimum_check ::
  "(DivaDomain \<Rightarrow> OfferCreateContingentPool \<Rightarrow> 's \<Rightarrow> address option) \<Rightarrow> 's Diva \<Rightarrow> Chain \<Rightarrow>
   DivaDomain \<Rightarrow> OfferCreateContingentPool \<Rightarrow> 's \<Rightarrow> address \<Rightarrow> BigNumber \<Rightarrow> bool" where
  "reaches_minimum_check verifyTypedData diva c divaDomain offer sig userAddress takerFillAmount' =
     (reaches_taker_check verifyTypedData diva c divaDomain offer sig takerFillAmount'
      \<and> \<not> (taker offer \<noteq> AddressZero \<and> userAddress \<noteq> taker offer))"

subsection \<open>Concrete inputs\<close>

text \<open>
  The offer of the specification's scenarios A to D (maker amount 100, taker amount 50,
  minimum 10), open to any taker; a DIVA contract reporting a given status and
  cumulative filled amount for it; a verifier that recovers the maker; a chain on which
  every account holds \<open>b\<close> tokens and has granted no allowance.
\<close>

definition offer_A :: OfferCreateContingentPool where
  "offer_A = \<lparr>maker = ''0xA1'', taker = AddressZero, makerCollateralAmount = 100,
               takerCollateralAmount = 50, minimumTakerFillAmount = 10\<rparr>"

definition diva_reporting :: "OfferStatus \<Rightarrow> BigNumber \<Rightarrow> unit Diva" where
  "diva_reporting st filled =
     \<lparr>diva_address = ''0xD1'',
      getOfferRelevantStateCreateContingentPool =
        (\<lambda>tok offer sig. \<lparr>offerInfo = \<lparr>status = st, takerFilledAmount = filled\<rparr>,
                           actualTakerFillableAmount = takerCollateralAmount offer - filled,
                           isValidInputParamsCreateContingentPool = True\<rparr>),
      fillOfferCreateContingentPool = (\<lambda>tok sender offer sig amount. True)\<rparr>"

definition recovers_maker :: "DivaDomain \<Rightarrow> OfferCreateContingentPool \<Rightarrow> unit \<Rightarrow> address option" where
  "recovers_maker divaDomain offer sig = Some (maker offer)"

definition domain_A :: DivaDomain where
  "domain_A = \<lparr>name = ''DIVA Protocol'', version = ''1'', chainId = 80001,
                verifyingContract = ''0xD1''\<rparr>"

definition api_A :: "unit ApiOffer" where
  "api_A = \<lparr>offerCreateContingentPool = offer_A, signature = (), offerChainId = 80001,
             offerVerifyingContract = ''0xD1''\<rparr>"

definition chain_holding :: "BigNumber \<Rightarrow> Chain" where
  "chain_holding b =
     \<lparr>collateralToken = \<lparr>balanceOf = (\<lambda>account. b), allowance = (\<lambda>owner spender. 0)\<rparr>,
      sent = []\<rparr>"

section \<open>Properties of the fill amounts\<close>

lemma bn_div_pos: "0 < b \<Longrightarrow> bn_div a b = Inr (a div b)"
  by (simp add: bn_div_def)

lemma floor_quotient_nat: "nat \<lfloor>real a / real b\<rfloor> = a div b"
  by (simp add: floor_divide_of_nat_eq)

text \<open>
  C1. With a positive taker amount the maker-side fill amount is computed, and it is the
  floor of the exact quotient
  \<open>makerCollateralAmount * takerFillAmount / takerCollateralAmount\<close>.
\<close>

theorem makerFillAmount_floor:
  assumes "0 < takerCollateralAmount offer"
  shows "makerFillAmount offer r =
           Inr (nat \<lfloor>real (makerCollateralAmount offer) * real r / real (takerCollateralAmount offer)\<rfloor>)"
proof -
  have "nat \<lfloor>real (makerCollateralAmount offer * r) / real (takerCollateralAmount offer)\<rfloor>
          = (makerCollateralAmount offer * r) div takerCollateralAmount offer"
    by (rule floor_quotient_nat)
  then show ?thesis
    using assms by (simp add: makerFillAmount_def bn_div_pos)
qed

theorem makerFillAmount_floor_witness:
  "0 < takerCollateralAmount offer_A \<and> makerFillAmount offer_A 7 = Inr 14"
  using makerFillAmount_floor [of offer_A 7]
  by (simp add: offer_A_def)

lemma full_fill_nat:
  fixes m t r :: nat
  assumes "0 < m" "0 < t" "r \<le> t"
  shows "(m * r div t = m) = (r = t)"
proof
  assume eq: "m * r div t = m"
  show "r = t"
  proof (rule ccontr)
    assume "r \<noteq> t"
    with assms have "r < t" by simp
    with \<open>0 < m\<close> have "m * r < m * t" by simp
    then have "m * r div t < m" by (simp add: less_mult_imp_div_less)
    with eq show False by simp
  qed
next
  assume "r = t"
  with \<open>0 < t\<close> show "m * r div t = m" by simp
qed

text \<open>
  C4. For an offer with positive maker and taker amounts and a requested amount of at
  most the taker amount, the maker-side fill amount is the offer's whole maker amount
  exactly when the request is the whole taker amount: a full fill loses nothing to
  rounding, and no smaller request reaches the full maker amount.
\<close>

theorem makerFillAmount_full:
  assumes "0 < makerCollateralAmount offer" "0 < takerCollateralAmount offer"
    and "r \<le> takerCollateralAmount offer"
  shows "makerFillAmount offer r = Inr (makerCollateralAmount offer)
           \<longleftrightarrow> r = takerCollateralAmount offer"
  using assms full_fill_nat [of "makerCollateralAmount offer" "takerCollateralAmount offer" r]
  by (simp add: makerFillAmount_def bn_div_pos)

theorem makerFillAmount_full_witness:
  "0 < makerCollateralAmount offer_A \<and> 0 < takerCollateralAmount offer_A
   \<and> 50 \<le> takerCollateralAmount offer_A \<and> 49 \<le> takerCollateralAmount offer_A
   \<and> makerFillAmount offer_A 50 = Inr (makerCollateralAmount offer_A)
   \<and> makerFillAmount offer_A 49 \<noteq> Inr (makerCollateralAmount offer_A)"
  using makerFillAmount_full [of offer_A 50] makerFillAmount_full [of offer_A 49]
  by (simp add: offer_A_def)

text \<open>
  C5. With a positive taker amount, the combined amount of a self-fill,
  \<open>floor ((makerAmount + takerAmount) * requested / takerAmount)\<close>, is the sum of the two
  legs computed on their own: the maker-side fill amount and
  \<open>floor (takerAmount * requested / takerAmount)\<close>.
\<close>

theorem totalCollateralFillAmount_legs:
  assumes "0 < takerCollateralAmount offer"
  shows "\<exists>makerLeg. makerFillAmount offer r = Inr makerLeg
           \<and> totalCollateralFillAmount offer r
               = Inr (makerLeg + nat \<lfloor>real (takerCollateralAmount offer) * real r
                                        / real (takerCollateralAmount offer)\<rfloor>)
           \<and> totalCollateralFillAmount offer r
               = Inr (nat \<lfloor>real (makerCollateralAmount offer + takerCollateralAmount offer) * real r
                              / real (takerCollateralAmount offer)\<rfloor>)"
proof -
  let ?m = "makerCollateralAmount offer" and ?t = "takerCollateralAmount offer"
  have legs: "(?m + ?t) * r div ?t = ?m * r div ?t + ?t * r div ?t"
    using assms by (simp add: add_mult_distrib)
  have taker: "nat \<lfloor>real ?t * real r / real ?t\<rfloor> = ?t * r div ?t"
    using floor_quotient_nat [of "?t * r" ?t] by simp
  have tot: "nat \<lfloor>real (?m + ?t) * real r / real ?t\<rfloor> = (?m + ?t) * r div ?t"
    using floor_quotient_nat [of "(?m + ?t) * r" ?t] by simp
  have "makerFillAmount offer r = Inr (?m * r div ?t)"
    using assms by (simp add: makerFillAmount_def bn_div_pos)
  moreover have "totalCollateralFillAmount offer r = Inr ((?m + ?t) * r div ?t)"
    using assms by (simp add: totalCollateralFillAmount_def bn_div_pos)
  ultimately show ?thesis
    using legs taker tot by simp
qed

theorem totalCollateralFillAmount_legs_witness:
  "0 < takerCollateralAmount offer_A
   \<and> makerFillAmount offer_A 7 = Inr 14 \<and> totalCollateralFillAmount offer_A 7 = Inr 21"
  using totalCollateralFillAmount_legs [of offer_A 7]
  by (simp add: offer_A_def makerFillAmount_def bn_div_def)

text \<open>
  C6. With a positive taker amount the maker-side fill amount is monotonic
  non-decreasing in the requested taker amount: both amounts are computed, and the one
  for the smaller request is at most the one for the larger.
\<close>

theorem makerFillAmount_mono:
  assumes "0 < takerCollateralAmount offer" and "a \<le> b"
  shows "\<exists>x y. makerFillAmount offer a = Inr x \<and> makerFillAmount offer b = Inr y \<and> x \<le> y"
proof -
  from \<open>a \<le> b\<close> have "makerCollateralAmount offer * a \<le> makerCollateralAmount offer * b"
    by simp
  then have "makerCollateralAmount offer * a div takerCollateralAmount offer
               \<le> makerCollateralAmount offer * b div takerCollateralAmount offer"
    by (rule div_le_mono)
  with assms(1) show ?thesis
    by (simp add: makerFillAmount_def bn_div_pos)
qed

theorem makerFillAmount_mono_witness:
  "0 < takerCollateralAmount offer_A \<and> (3::nat) \<le> 4
   \<and> (\<exists>x y. makerFillAmount offer_A 3 = Inr x \<and> makerFillAmount offer_A 4 = Inr y \<and> x \<le> y)"
  using makerFillAmount_mono [of offer_A 3 4]
  by (simp add: offer_A_def)

section \<open>Properties of the preflight checks\<close>

text \<open>
  C2. The preflight checks run in the order of the specification and stop at the first
  failure: status (Invalid, Cancelled, Filled, Expired), parameters, fillable amount,
  signature, taker authorization, first-fill minimum, taker balance, maker balance. In
  particular an offer that is Expired while the taker's balance is too small is reported
  as expired, not as a balance error.
\<close>

theorem checkConditions_order:
  "checkConditions verifyTypedData diva c divaDomain offer sig userAddress r mk tb mb
     = validate_spec offer (getOfferRelevantStateCreateContingentPool diva (collateralToken c) offer sig)
         (verifyTypedData divaDomain offer sig) userAddress r mk tb mb
   \<and> (status (offerInfo (getOfferRelevantStateCreateContingentPool diva (collateralToken c) offer sig)) = Expired
        \<and> tb < r
      \<longrightarrow> checkConditions verifyTypedData diva c divaDomain offer sig userAddress r mk tb mb
            = Inl StatusExpired)"
  by (simp add: checkConditions_def validate_spec_def Let_def split: option.splits)

theorem checkConditions_order_witness:
  "status (offerInfo (getOfferRelevantStateCreateContingentPool
      (diva_reporting Expired 0) (collateralToken (chain_holding 500))
        offer_A ())) = Expired
   \<and> (0::nat) < 50
   \<and> checkConditions recovers_maker (diva_reporting Expired 0) (chain_holding 500) domain_A offer_A () ''0xB2''
        50 100 0 100 = Inl StatusExpired
   \<and> validate_spec offer_A
        (getOfferRelevantStateCreateContingentPool (diva_reporting Expired 0) (collateralToken (chain_holding 500))
        offer_A ())
        (recovers_maker domain_A offer_A ()) ''0xB2'' 50 100 0 100 = Inl StatusExpired"
proof -
  have st: "status (offerInfo (getOfferRelevantStateCreateContingentPool
              (diva_reporting Expired 0) (collateralToken (chain_holding 500))
        offer_A ())) = Expired"
    by (simp add: diva_reporting_def)
  note ordered = checkConditions_order [of recovers_maker "diva_reporting Expired 0"
      "chain_holding 500" domain_A
      offer_A "()" "''0xB2''" 50 100 0 100]
  from ordered [THEN conjunct2] st
  have res: "checkConditions recovers_maker (diva_reporting Expired 0) (chain_holding 500) domain_A offer_A ()
               ''0xB2'' 50 100 0 100 = Inl StatusExpired"
    by simp
  from ordered [THEN conjunct1] res
  have "validate_spec offer_A
          (getOfferRelevantStateCreateContingentPool (diva_reporting Expired 0) (collateralToken (chain_holding 500))
        offer_A ())
          (recovers_maker domain_A offer_A ()) ''0xB2'' 50 100 0 100 = Inl StatusExpired"
    by simp
  with st res show ?thesis by simp
qed

lemma checkConditions_after_signature:
  assumes "reaches_taker_check verifyTypedData diva c divaDomain offer sig r"
  shows "checkConditions verifyTypedData diva c divaDomain offer sig userAddress r mk tb mb =
          (if taker offer \<noteq> AddressZero \<and> userAddress \<noteq> taker offer then Inl Unauthorized
           else if takerFilledAmount (offerInfo (getOfferRelevantStateCreateContingentPool diva (collateralToken c) offer sig)) = 0
                   \<and> r < minimumTakerFillAmount offer then Inl BelowMinimum
           else if tb < r then Inl InsufficientTakerBalance
           else if mb < mk then Inl InsufficientMakerBalance
           else Inr ())"
  using assms by (simp add: checkConditions_def reaches_taker_check_def Let_def)

lemma checkConditions_BelowMinimumD:
  assumes "checkConditions verifyTypedData diva c divaDomain offer sig userAddress r mk tb mb
             = Inl BelowMinimum"
  shows "takerFilledAmount (offerInfo (getOfferRelevantStateCreateContingentPool diva (collateralToken c) offer sig)) = 0
         \<and> r < minimumTakerFillAmount offer"
  using assms by (simp add: checkConditions_def Let_def split: if_splits option.splits)

lemma checkConditions_UnauthorizedD:
  assumes "checkConditions verifyTypedData diva c divaDomain offer sig userAddress r mk tb mb
             = Inl Unauthorized"
  shows "taker offer \<noteq> AddressZero \<and> userAddress \<noteq> taker offer"
  using assms by (simp add: checkConditions_def Let_def split: if_splits option.splits)

lemma checkConditions_any_requester:
  assumes "taker offer = AddressZero"
  shows "checkConditions verifyTypedData diva c divaDomain offer sig userAddress r mk tb mb
           = checkConditions verifyTypedData diva c divaDomain offer sig userAddress' r mk tb mb"
  using assms by (simp add: checkConditions_def Let_def)

text \<open>
  C3. The checks fail with BelowMinimum only if the cumulative taker filled amount
  reported by the contract is 0 and the requested amount is below the offer's minimum;
  when the earlier checks pass they fail with it exactly then; and once the cumulative
  amount is positive a request below the minimum is accepted, the other checks passing.
\<close>

theorem first_fill_minimum:
  "(checkConditions verifyTypedData diva c divaDomain offer sig userAddress r mk tb mb
      = Inl BelowMinimum
    \<longrightarrow> takerFilledAmount (offerInfo (getOfferRelevantStateCreateContingentPool diva (collateralToken c) offer sig)) = 0
        \<and> r < minimumTakerFillAmount offer)
   \<and> (reaches_minimum_check verifyTypedData diva c divaDomain offer sig userAddress r
      \<longrightarrow> (checkConditions verifyTypedData diva c divaDomain offer sig userAddress r mk tb mb
             = Inl BelowMinimum
           \<longleftrightarrow> takerFilledAmount (offerInfo (getOfferRelevantStateCreateContingentPool diva (collateralToken c) offer sig)) = 0
               \<and> r < minimumTakerFillAmount offer))
   \<and> (reaches_minimum_check verifyTypedData diva c divaDomain offer sig userAddress r
        \<and> 0 < takerFilledAmount (offerInfo (getOfferRelevantStateCreateContingentPool diva (collateralToken c) offer sig))
        \<and> r \<le> tb \<and> mk \<le> mb
      \<longrightarrow> checkConditions verifyTypedData diva c divaDomain offer sig userAddress r mk tb mb
            = Inr ())"
proof -
  have only_if:
    "checkConditions verifyTypedData diva c divaDomain offer sig userAddress r mk tb mb
       = Inl BelowMinimum
     \<longrightarrow> takerFilledAmount (offerInfo (getOfferRelevantStateCreateContingentPool diva (collateralToken c) offer sig)) = 0
         \<and> r < minimumTakerFillAmount offer"
    using checkConditions_BelowMinimumD [of verifyTypedData diva c divaDomain offer sig userAddress
        r mk tb mb]
    by blast
  have iff_reached:
    "reaches_minimum_check verifyTypedData diva c divaDomain offer sig userAddress r
     \<longrightarrow> (checkConditions verifyTypedData diva c divaDomain offer sig userAddress r mk tb mb
            = Inl BelowMinimum
          \<longleftrightarrow> takerFilledAmount (offerInfo (getOfferRelevantStateCreateContingentPool diva (collateralToken c) offer sig)) = 0
              \<and> r < minimumTakerFillAmount offer)"
    by (simp add: reaches_minimum_check_def checkConditions_after_signature)
  have waived:
    "reaches_minimum_check verifyTypedData diva c divaDomain offer sig userAddress r
       \<and> 0 < takerFilledAmount (offerInfo (getOfferRelevantStateCreateContingentPool diva (collateralToken c) offer sig))
       \<and> r \<le> tb \<and> mk \<le> mb
     \<longrightarrow> checkConditions verifyTypedData diva c divaDomain offer sig userAddress r mk tb mb
           = Inr ()"
    by (simp add: reaches_minimum_check_def checkConditions_after_signature)
  show ?thesis
    by (rule conjI [OF only_if conjI [OF iff_reached waived]])
qed

lemma reaches_taker_check_A:
  "filled + r \<le> 50 \<Longrightarrow>
   reaches_taker_check recovers_maker (diva_reporting Fillable filled) c domain_A offer_A () r"
  by (simp add: reaches_taker_check_def diva_reporting_def recovers_maker_def offer_A_def)

lemma reaches_minimum_check_A:
  "filled + r \<le> 50 \<Longrightarrow>
   reaches_minimum_check recovers_maker (diva_reporting Fillable filled) c domain_A offer_A ()
     userAddress r"
  by (simp add: reaches_minimum_check_def reaches_taker_check_A) (simp add: offer_A_def)

lemma filled_A:
  "takerFilledAmount (offerInfo (getOfferRelevantStateCreateContingentPool
      (diva_reporting st filled) tok offer ())) = filled"
  by (simp add: diva_reporting_def)

theorem first_fill_minimum_witness:
  "reaches_minimum_check recovers_maker (diva_reporting Fillable 0) (chain_holding 500) domain_A offer_A () ''0xB2'' 5
   \<and> takerFilledAmount (offerInfo (getOfferRelevantStateCreateContingentPool
        (diva_reporting Fillable 0) (collateralToken (chain_holding 500))
        offer_A ())) = 0
   \<and> 5 < minimumTakerFillAmount offer_A
   \<and> checkConditions recovers_maker (diva_reporting Fillable 0) (chain_holding 500) domain_A offer_A () ''0xB2''
        5 10 50 100 = Inl BelowMinimum
   \<and> reaches_minimum_check recovers_maker (diva_reporting Fillable 20) (chain_holding 500) domain_A offer_A () ''0xB2'' 5
   \<and> 0 < takerFilledAmount (offerInfo (getOfferRelevantStateCreateContingentPool
        (diva_reporting Fillable 20) (collateralToken (chain_holding 500))
        offer_A ()))
   \<and> (5::nat) \<le> 50 \<and> (10::nat) \<le> 100
   \<and> checkConditions recovers_maker (diva_reporting Fillable 20) (chain_holding 500) domain_A offer_A () ''0xB2''
        5 10 50 100 = Inr ()"
proof -
  have min: "5 < minimumTakerFillAmount offer_A"
    by (simp add: offer_A_def)
  have first: "reaches_minimum_check recovers_maker (diva_reporting Fillable 0) (chain_holding 500) domain_A
                 offer_A () ''0xB2'' 5"
    by (simp add: reaches_minimum_check_A)
  have later: "reaches_minimum_check recovers_maker (diva_reporting Fillable 20) (chain_holding 500) domain_A
                 offer_A () ''0xB2'' 5"
    by (simp add: reaches_minimum_check_A)
  from first min
    first_fill_minimum [of recovers_maker "diva_reporting Fillable 0" "chain_holding 500"
      domain_A offer_A "()"
      "''0xB2''" 5 10 50 100]
  have below: "checkConditions recovers_maker (diva_reporting Fillable 0) (chain_holding 500) domain_A offer_A ()
                 ''0xB2'' 5 10 50 100 = Inl BelowMinimum"
    by (simp add: filled_A)
  from later
    first_fill_minimum [of recovers_maker "diva_reporting Fillable 20" "chain_holding 500"
      domain_A offer_A "()"
      "''0xB2''" 5 10 50 100]
  have waived: "checkConditions recovers_maker (diva_reporting Fillable 20) (chain_holding 500) domain_A offer_A ()
                  ''0xB2'' 5 10 50 100 = Inr ()"
    by (simp add: filled_A)
  from min first later below waived show ?thesis
    by (simp add: filled_A)
qed

text \<open>
  C9. The wildcard taker is the zero address: for an offer whose taker is the zero
  address the authorization check rejects no requester, the result being the same for
  every requester address; for an offer with another taker, the checks before it
  passing, it fails exactly when the requester is not that taker.
\<close>

theorem wildcard_taker:
  "(taker offer = AddressZero
      \<longrightarrow> checkConditions verifyTypedData diva c divaDomain offer sig userAddress r mk tb mb
            \<noteq> Inl Unauthorized
          \<and> checkConditions verifyTypedData diva c divaDomain offer sig userAddress r mk tb mb
            = checkConditions verifyTypedData diva c divaDomain offer sig userAddress' r mk tb mb)
   \<and> (taker offer \<noteq> AddressZero
        \<and> reaches_taker_check verifyTypedData diva c divaDomain offer sig r
      \<longrightarrow> (checkConditions verifyTypedData diva c divaDomain offer sig userAddress r mk tb mb
             = Inl Unauthorized
           \<longleftrightarrow> userAddress \<noteq> taker offer))"
proof -
  have wildcard:
    "taker offer = AddressZero
     \<longrightarrow> checkConditions verifyTypedData diva c divaDomain offer sig userAddress r mk tb mb
           \<noteq> Inl Unauthorized
         \<and> checkConditions verifyTypedData diva c divaDomain offer sig userAddress r mk tb mb
           = checkConditions verifyTypedData diva c divaDomain offer sig userAddress' r mk tb mb"
    using checkConditions_UnauthorizedD [of verifyTypedData diva c divaDomain offer sig userAddress
        r mk tb mb]
      checkConditions_any_requester [of offer verifyTypedData diva c divaDomain sig userAddress
        r mk tb mb userAddress']
    by blast
  have reserved:
    "taker offer \<noteq> AddressZero
       \<and> reaches_taker_check verifyTypedData diva c divaDomain offer sig r
     \<longrightarrow> (checkConditions verifyTypedData diva c divaDomain offer sig userAddress r mk tb mb
            = Inl Unauthorized
          \<longleftrightarrow> userAddress \<noteq> taker offer)"
    by (simp add: checkConditions_after_signature)
  show ?thesis
    by (rule conjI [OF wildcard reserved])
qed

theorem wildcard_taker_witness:
  "taker offer_A = AddressZero
   \<and> checkConditions recovers_maker (diva_reporting Fillable 0) (chain_holding 500) domain_A offer_A () ''0xB2''
        50 100 50 100 \<noteq> Inl Unauthorized
   \<and> taker (offer_A\<lparr>taker := ''0xC3''\<rparr>) \<noteq> AddressZero
   \<and> reaches_taker_check recovers_maker (diva_reporting Fillable 0) (chain_holding 500) domain_A
        (offer_A\<lparr>taker := ''0xC3''\<rparr>) () 50
   \<and> checkConditions recovers_maker (diva_reporting Fillable 0) (chain_holding 500) domain_A
        (offer_A\<lparr>taker := ''0xC3''\<rparr>) () ''0xB2'' 50 100 50 100 = Inl Unauthorized
   \<and> checkConditions recovers_maker (diva_reporting Fillable 0) (chain_holding 500) domain_A
        (offer_A\<lparr>taker := ''0xC3''\<rparr>) () ''0xC3'' 50 100 50 100 \<noteq> Inl Unauthorized"
proof -
  have zero: "taker offer_A = AddressZero"
    by (simp add: offer_A_def)
  have named: "taker (offer_A\<lparr>taker := ''0xC3''\<rparr>) \<noteq> AddressZero"
    by (simp add: AddressZero_def)
  have reach: "reaches_taker_check recovers_maker (diva_reporting Fillable 0) (chain_holding 500) domain_A
                 (offer_A\<lparr>taker := ''0xC3''\<rparr>) () 50"
    by (simp add: reaches_taker_check_def diva_reporting_def recovers_maker_def offer_A_def)
  from zero
    wildcard_taker [of offer_A recovers_maker "diva_reporting Fillable 0" "chain_holding 500"
      domain_A "()"
      "''0xB2''" 50 100 50 100]
  have open_offer: "checkConditions recovers_maker (diva_reporting Fillable 0) (chain_holding 500) domain_A offer_A ()
                ''0xB2'' 50 100 50 100 \<noteq> Inl Unauthorized"
    by simp
  from named reach
    wildcard_taker [of "offer_A\<lparr>taker := ''0xC3''\<rparr>" recovers_maker "diva_reporting Fillable 0"
      "chain_holding 500" domain_A "()" "''0xB2''" 50 100 50 100]
  have other: "checkConditions recovers_maker (diva_reporting Fillable 0) (chain_holding 500) domain_A
                 (offer_A\<lparr>taker := ''0xC3''\<rparr>) () ''0xB2'' 50 100 50 100 = Inl Unauthorized"
    by simp
  from named reach
    wildcard_taker [of "offer_A\<lparr>taker := ''0xC3''\<rparr>" recovers_maker "diva_reporting Fillable 0"
      "chain_holding 500" domain_A "()" "''0xC3''" 50 100 50 100]
  have same: "checkConditions recovers_maker (diva_reporting Fillable 0) (chain_holding 500) domain_A
                (offer_A\<lparr>taker := ''0xC3''\<rparr>) () ''0xC3'' 50 100 50 100 \<noteq> Inl Unauthorized"
    by simp
  from zero named reach open_offer other same show ?thesis
    by simp
qed

section \<open>Properties of the allowance blocks\<close>

lemma setAllowanceIfInsufficient_low:
  "current < required \<Longrightarrow>
   setAllowanceIfInsufficient owner spender current required c =
     (required + 1,
      c\<lparr>collateralToken := approve owner spender (required + 1) (collateralToken c),
        sent := sent c @ [Approve owner spender (required + 1)]\<rparr>)"
  by (simp add: setAllowanceIfInsufficient_def approveTx_def approve_def Let_def)

lemma setAllowanceIfInsufficient_enough:
  "\<not> current < required \<Longrightarrow>
   setAllowanceIfInsufficient owner spender current required c = (current, c)"
  by (simp add: setAllowanceIfInsufficient_def)

lemma allowance_approve:
  "allowance (approve owner spender amount tok) owner spender = amount"
  by (simp add: approve_def)

text \<open>
  C7. \<open>ensureAllowance\<close> sends an approval of the required amount plus one exactly when
  the current allowance is below the required amount, and changes nothing when the
  allowance suffices. Hence a second call right after the first changes nothing: the
  first leaves the allowance at the required amount plus one, and two calls in
  succession send at most one approval.
\<close>

theorem ensureAllowance_idempotent:
  "(allowance (collateralToken c) owner spender < required
      \<longrightarrow> ensureAllowance owner spender required c =
            (required + 1,
             c\<lparr>collateralToken := approve owner spender (required + 1) (collateralToken c),
               sent := sent c @ [Approve owner spender (required + 1)]\<rparr>))
   \<and> (\<not> allowance (collateralToken c) owner spender < required
      \<longrightarrow> ensureAllowance owner spender required c
            = (allowance (collateralToken c) owner spender, c))
   \<and> snd (ensureAllowance owner spender required (snd (ensureAllowance owner spender required c)))
       = snd (ensureAllowance owner spender required c)
   \<and> length (sent (snd (ensureAllowance owner spender required
                          (snd (ensureAllowance owner spender required c)))))
       \<le> length (sent c) + 1"
proof -
  let ?a = "allowance (collateralToken c) owner spender"
  have low: "?a < required \<longrightarrow> ensureAllowance owner spender required c =
            (required + 1,
             c\<lparr>collateralToken := approve owner spender (required + 1) (collateralToken c),
               sent := sent c @ [Approve owner spender (required + 1)]\<rparr>)"
    by (simp add: ensureAllowance_def setAllowanceIfInsufficient_low)
  have enough: "\<not> ?a < required \<longrightarrow> ensureAllowance owner spender required c = (?a, c)"
    by (simp add: ensureAllowance_def setAllowanceIfInsufficient_enough)
  have second: "snd (ensureAllowance owner spender required
                       (snd (ensureAllowance owner spender required c)))
                  = snd (ensureAllowance owner spender required c)"
  proof (cases "?a < required")
    case True
    with low have first: "snd (ensureAllowance owner spender required c) =
        c\<lparr>collateralToken := approve owner spender (required + 1) (collateralToken c),
          sent := sent c @ [Approve owner spender (required + 1)]\<rparr>"
      by simp
    show ?thesis
      unfolding first
      by (simp add: ensureAllowance_def setAllowanceIfInsufficient_enough allowance_approve)
  next
    case False
    with enough show ?thesis by simp
  qed
  have count: "length (sent (snd (ensureAllowance owner spender required c))) \<le> length (sent c) + 1"
    using low enough by (cases "?a < required") simp_all
  show ?thesis
    using low enough second count by simp
qed

theorem ensureAllowance_idempotent_witness:
  "allowance (collateralToken (chain_holding 500)) ''0xA1'' ''0xD1'' < 100
   \<and> ensureAllowance ''0xA1'' ''0xD1'' 100 (chain_holding 500) =
       (101, (chain_holding 500)\<lparr>collateralToken :=
                 approve ''0xA1'' ''0xD1'' 101 (collateralToken (chain_holding 500)),
               sent := [Approve ''0xA1'' ''0xD1'' 101]\<rparr>)
   \<and> \<not> allowance (collateralToken (chain_holding 500)) ''0xA1'' ''0xD1'' < 0
   \<and> ensureAllowance ''0xA1'' ''0xD1'' 0 (chain_holding 500) = (0, chain_holding 500)
   \<and> sent (snd (ensureAllowance ''0xA1'' ''0xD1'' 100
               (snd (ensureAllowance ''0xA1'' ''0xD1'' 100 (chain_holding 500)))))
       = [Approve ''0xA1'' ''0xD1'' 101]"
proof -
  have low: "allowance (collateralToken (chain_holding 500)) ''0xA1'' ''0xD1'' < 100"
    by (simp add: chain_holding_def)
  have zero: "allowance (collateralToken (chain_holding 500)) ''0xA1'' ''0xD1'' = 0"
    by (simp add: chain_holding_def)
  have none: "sent (chain_holding 500) = []"
    by (simp add: chain_holding_def)
  note first = ensureAllowance_idempotent [of "chain_holding 500" "''0xA1''" "''0xD1''" 100]
  note idle = ensureAllowance_idempotent [of "chain_holding 500" "''0xA1''" "''0xD1''" 0]
  from first low none
  have once: "ensureAllowance ''0xA1'' ''0xD1'' 100 (chain_holding 500) =
       (101, (chain_holding 500)\<lparr>collateralToken :=
                 approve ''0xA1'' ''0xD1'' 101 (collateralToken (chain_holding 500)),
               sent := [Approve ''0xA1'' ''0xD1'' 101]\<rparr>)"
    by simp
  from first once
  have twice: "sent (snd (ensureAllowance ''0xA1'' ''0xD1'' 100
               (snd (ensureAllowance ''0xA1'' ''0xD1'' 100 (chain_holding 500)))))
       = [Approve ''0xA1'' ''0xD1'' 101]"
    by simp
  from idle zero
  have unchanged: "ensureAllowance ''0xA1'' ''0xD1'' 0 (chain_holding 500) = (0, chain_holding 500)"
    by simp
  from low zero once twice unchanged show ?thesis
    by simp
qed

text \<open>
  The blocks of \<^verbatim>\<open>main\<close> are instances of \<open>ensureAllowance\<close>: the allowances read up
  front are still current when each block runs.
\<close>

lemma approve_other:
  "owner' \<noteq> owner \<Longrightarrow>
   allowance (approve owner spender amount tok) owner' spender' = allowance tok owner' spender'"
  by (simp add: approve_def)

lemma setAllowances_two_parties:
  assumes "takerAddress \<noteq> maker offer"
  shows "setAllowances diva_addr offer takerAddress r mk c =
           (case ensureAllowance (maker offer) diva_addr mk c of
              (allowanceMaker, c1) \<Rightarrow>
                (case ensureAllowance takerAddress diva_addr r c1 of
                   (allowanceTaker, c2) \<Rightarrow> Inr ((allowanceMaker, allowanceTaker), c2)))"
  using assms
  by (simp add: setAllowances_def ensureAllowance_def setAllowanceIfInsufficient_def
      approveTx_def approve_other Let_def)

lemma setAllowances_self_fill:
  assumes "takerAddress = maker offer"
  shows "setAllowances diva_addr offer takerAddress r mk c =
           (case totalCollateralFillAmount offer r of
              Inl e \<Rightarrow> Inl e
            | Inr combined \<Rightarrow>
                (case ensureAllowance (maker offer) diva_addr combined c of
                   (allowanceMaker, c') \<Rightarrow> Inr ((allowanceMaker, allowanceMaker), c')))"
  using assms
  by (simp add: setAllowances_def ensureAllowance_def setAllowanceIfInsufficient_def Let_def
      split: sum.splits)

section \<open>The order of allowances, checks and fill\<close>

text \<open>The script on the concrete inputs.\<close>

lemma main_A_amounts:
  "makerFillAmount offer_A 50 = Inr 100" "totalCollateralFillAmount offer_A 50 = Inr 150"
  by (simp_all add: makerFillAmount_def totalCollateralFillAmount_def bn_div_def offer_A_def)

lemma api_A_fields:
  "offerCreateContingentPool api_A = offer_A" "signature api_A = ()"
  by (simp_all add: api_A_def)

lemma maker_A: "maker offer_A = ''0xA1''"
  by (simp add: offer_A_def)

lemma diva_reporting_address: "diva_address (diva_reporting st filled) = ''0xD1''"
  by (simp add: diva_reporting_def)

lemma diva_reporting_fills:
  "fillOfferCreateContingentPool (diva_reporting st filled) tok sender offer () amount"
  by (simp add: diva_reporting_def)

lemma checkConditions_A_status:
  "st \<noteq> Fillable \<Longrightarrow>
   checkConditions recovers_maker (diva_reporting st filled) c divaDomain offer_A () userAddress
     r mk tb mb =
   (case st of Invalid \<Rightarrow> Inl StatusInvalid | Cancelled \<Rightarrow> Inl StatusCancelled
    | Filled \<Rightarrow> Inl StatusFilled | Expired \<Rightarrow> Inl StatusExpired | Fillable \<Rightarrow> Inr ())"
  by (cases st) (simp_all add: checkConditions_def diva_reporting_def)

lemma setAllowances_A_two_parties:
  "setAllowances ''0xD1'' offer_A ''0xB2'' 50 100 (chain_holding b) =
      Inr ((101, 51),
           \<lparr>collateralToken = approve ''0xB2'' ''0xD1'' 51
               (approve ''0xA1'' ''0xD1'' 101 (collateralToken (chain_holding b))),
            sent = [Approve ''0xA1'' ''0xD1'' 101, Approve ''0xB2'' ''0xD1'' 51]\<rparr>)"
  by (simp add: setAllowances_def setAllowanceIfInsufficient_def approveTx_def maker_A
      chain_holding_def approve_def Let_def)

lemma checkConditions_A_fillable:
  "filled + r \<le> 50 \<Longrightarrow>
   checkConditions recovers_maker (diva_reporting Fillable filled) c divaDomain offer_A ()
     userAddress r mk tb mb =
   (if filled = 0 \<and> r < 10 then Inl BelowMinimum
    else if tb < r then Inl InsufficientTakerBalance
    else if mb < mk then Inl InsufficientMakerBalance
    else Inr ())"
  by (auto simp: checkConditions_def diva_reporting_def recovers_maker_def offer_A_def Let_def)

lemma balance_chain_holding: "balanceOf (collateralToken (chain_holding b)) account = b"
  by (simp add: chain_holding_def)

text \<open>
  The log of \<open>setAllowances\<close> grows by approvals only, and \<open>setAllowances\<close> returns
  whenever the maker amount was computed. After it, \<open>main\<close> adds the fill exactly when
  the checks pass.
\<close>

lemma setAllowanceIfInsufficient_sent:
  "setAllowanceIfInsufficient owner spender current required c = (a, c') \<Longrightarrow>
   sent c' = sent c @ (if current < required then [Approve owner spender (required + 1)] else [])"
  by (auto simp: setAllowanceIfInsufficient_def approveTx_def Let_def split: if_splits)

lemma setAllowances_sent:
  assumes "setAllowances diva_addr offer takerAddress r mk c = Inr (allowances, c1)"
  shows "\<exists>approvals. sent c1 = sent c @ approvals
           \<and> (\<forall>a \<in> set approvals. \<exists>owner spender amount. a = Approve owner spender amount)"
  using assms
  by (auto simp: setAllowances_def Let_def
      split: if_splits sum.splits prod.splits dest!: setAllowanceIfInsufficient_sent)

lemma setAllowances_returns:
  assumes "makerFillAmount offer r = Inr mk"
  shows "\<exists>allowances c1. setAllowances diva_addr offer takerAddress r mk c = Inr (allowances, c1)"
proof -
  from assms have "takerCollateralAmount offer \<noteq> 0"
    by (auto simp: makerFillAmount_def bn_div_def split: if_splits)
  then show ?thesis
    by (simp add: setAllowances_def totalCollateralFillAmount_def bn_div_def Let_def
        split: prod.splits)
qed

lemma main_sent:
  assumes "makerFillAmount (offerCreateContingentPool apiOffer) r = Inr mk"
    and "setAllowances (diva_address diva) (offerCreateContingentPool apiOffer) takerAddress r mk c
           = Inr (allowances, c1)"
  shows "sent (snd (main verifyTypedData diva apiOffer takerAddress r c)) =
           sent c1 @
           (if checkConditions verifyTypedData diva c1
                 \<lparr>name = ''DIVA Protocol'', version = ''1'', chainId = offerChainId apiOffer,
                  verifyingContract = offerVerifyingContract apiOffer\<rparr>
                 (offerCreateContingentPool apiOffer) (signature apiOffer) takerAddress r mk
                 (balanceOf (collateralToken c) takerAddress)
                 (balanceOf (collateralToken c) (maker (offerCreateContingentPool apiOffer)))
               = Inr ()
            then [FillOffer takerAddress r] else [])"
  using assms by (simp add: main_def Let_def split: sum.splits)

text \<open>
  C8 as the specification states it, that no allowance is set before all eight checks
  have passed, does not hold of the script: for an offer that the contract reports as
  cancelled, and a maker and a taker who have granted no allowance, it sends both
  approvals and then stops with the error for a cancelled offer.
\<close>

theorem allowance_after_validation_counterexample:
  "fst (main recovers_maker (diva_reporting Cancelled 0) api_A ''0xB2'' 50 (chain_holding 500))
     = Inl StatusCancelled
   \<and> sent (snd (main recovers_maker (diva_reporting Cancelled 0) api_A ''0xB2'' 50
                  (chain_holding 500)))
     = [Approve ''0xA1'' ''0xD1'' 101, Approve ''0xB2'' ''0xD1'' 51]"
  by (simp add: main_def Let_def api_A_fields main_A_amounts diva_reporting_address
      setAllowances_A_two_parties checkConditions_A_status)

text \<open>
  C8, amended. Whenever the maker amount is computed, the script first runs the allowance
  blocks, which send approvals only and do so whatever the checks will say; it then runs
  the checks on the chain the approvals have left; and it sends the fill exactly when
  all the checks have passed. So it is the fill, not the allowance, that waits for the
  checks.
\<close>

theorem main_allowances_checks_fill:
  assumes "makerFillAmount (offerCreateContingentPool apiOffer) r = Inr mk"
  shows "\<exists>allowances c1 approvals.
           setAllowances (diva_address diva) (offerCreateContingentPool apiOffer) takerAddress r mk c
             = Inr (allowances, c1)
           \<and> sent c1 = sent c @ approvals
           \<and> (\<forall>a \<in> set approvals. \<exists>owner spender amount. a = Approve owner spender amount)
           \<and> sent (snd (main verifyTypedData diva apiOffer takerAddress r c)) =
               sent c1 @
               (if checkConditions verifyTypedData diva c1
                     \<lparr>name = ''DIVA Protocol'', version = ''1'', chainId = offerChainId apiOffer,
                      verifyingContract = offerVerifyingContract apiOffer\<rparr>
                     (offerCreateContingentPool apiOffer) (signature apiOffer) takerAddress r mk
                     (balanceOf (collateralToken c) takerAddress)
                     (balanceOf (collateralToken c) (maker (offerCreateContingentPool apiOffer)))
                   = Inr ()
                then [FillOffer takerAddress r] else [])"
proof -
  from setAllowances_returns [OF assms]
  obtain allowances c1 where
    al: "setAllowances (diva_address diva) (offerCreateContingentPool apiOffer) takerAddress r mk c
           = Inr (allowances, c1)"
    by blast
  from setAllowances_sent [OF al]
  obtain approvals where
    ap: "sent c1 = sent c @ approvals"
      "\<forall>a \<in> set approvals. \<exists>owner spender amount. a = Approve owner spender amount"
    by blast
  from al ap main_sent [OF assms al] show ?thesis
    by blast
qed

theorem main_allowances_checks_fill_witness:
  "makerFillAmount (offerCreateContingentPool api_A) 50 = Inr 100
   \<and> sent (snd (main recovers_maker (diva_reporting Fillable 0) api_A ''0xB2'' 50
                  (chain_holding 500)))
     = [Approve ''0xA1'' ''0xD1'' 101, Approve ''0xB2'' ''0xD1'' 51, FillOffer ''0xB2'' 50]"
proof -
  have mk: "makerFillAmount (offerCreateContingentPool api_A) 50 = Inr 100"
    by (simp add: api_A_fields main_A_amounts)
  from main_allowances_checks_fill [OF mk, where diva = "diva_reporting Fillable 0"
      and takerAddress = "''0xB2''" and c = "chain_holding 500"
      and verifyTypedData = recovers_maker]
  obtain allowances c1 where
    al: "setAllowances (diva_address (diva_reporting Fillable 0))
           (offerCreateContingentPool api_A) ''0xB2'' 50 100 (chain_holding 500)
         = Inr (allowances, c1)"
    and run: "sent (snd (main recovers_maker (diva_reporting Fillable 0) api_A ''0xB2'' 50
                           (chain_holding 500))) =
        sent c1 @
        (if checkConditions recovers_maker (diva_reporting Fillable 0) c1
              \<lparr>name = ''DIVA Protocol'', version = ''1'', chainId = offerChainId api_A,
               verifyingContract = offerVerifyingContract api_A\<rparr>
              (offerCreateContingentPool api_A) (signature api_A) ''0xB2'' 50 100
              (balanceOf (collateralToken (chain_holding 500)) ''0xB2'')
              (balanceOf (collateralToken (chain_holding 500))
                 (maker (offerCreateContingentPool api_A)))
            = Inr ()
         then [FillOffer ''0xB2'' 50] else [])"
    by blast
  from al have "sent c1 = [Approve ''0xA1'' ''0xD1'' 101, Approve ''0xB2'' ''0xD1'' 51]"
    by (auto simp: diva_reporting_address api_A_fields setAllowances_A_two_parties)
  with run mk show ?thesis
    by (simp add: api_A_fields checkConditions_A_fillable balance_chain_holding)
qed

section \<open>Self-fill\<close>

text \<open>
  C10. In a self-fill (the requester is the offer's maker) the balance checks stay per
  leg: the checks before them passing, the result is success exactly when the one
  account's balance covers the requested taker amount and covers the maker amount, each
  on its own; the combined amount plays no part. So there is a self-fill whose balance
  covers each leg but not their sum, for which the script passes the checks and sends
  the fill, having approved the combined amount plus one.
\<close>

theorem self_fill_balance_per_leg:
  "(reaches_minimum_check verifyTypedData diva c divaDomain offer sig (maker offer) r
      \<and> \<not> (takerFilledAmount (offerInfo
               (getOfferRelevantStateCreateContingentPool diva (collateralToken c) offer sig)) = 0
             \<and> r < minimumTakerFillAmount offer)
    \<longrightarrow> (checkConditions verifyTypedData diva c divaDomain offer sig (maker offer) r mk b b
           = Inr ()
         \<longleftrightarrow> r \<le> b \<and> mk \<le> b))
   \<and> (\<exists>verifyTypedData' (diva' :: unit Diva) apiOffer r' c0 makerLeg combined allowances c'.
         makerFillAmount (offerCreateContingentPool apiOffer) r' = Inr makerLeg
         \<and> totalCollateralFillAmount (offerCreateContingentPool apiOffer) r' = Inr combined
         \<and> r' \<le> balanceOf (collateralToken c0) (maker (offerCreateContingentPool apiOffer))
         \<and> makerLeg \<le> balanceOf (collateralToken c0) (maker (offerCreateContingentPool apiOffer))
         \<and> balanceOf (collateralToken c0) (maker (offerCreateContingentPool apiOffer)) < combined
         \<and> main verifyTypedData' diva' apiOffer (maker (offerCreateContingentPool apiOffer)) r' c0
             = (Inr allowances, c')
         \<and> sent c' = sent c0 @ [Approve (maker (offerCreateContingentPool apiOffer))
                                   (diva_address diva') (combined + 1),
                                 FillOffer (maker (offerCreateContingentPool apiOffer)) r'])"
proof -
  have per_leg:
    "reaches_minimum_check verifyTypedData diva c divaDomain offer sig (maker offer) r
      \<and> \<not> (takerFilledAmount (offerInfo
               (getOfferRelevantStateCreateContingentPool diva (collateralToken c) offer sig)) = 0
             \<and> r < minimumTakerFillAmount offer)
    \<longrightarrow> (checkConditions verifyTypedData diva c divaDomain offer sig (maker offer) r mk b b
           = Inr ()
         \<longleftrightarrow> r \<le> b \<and> mk \<le> b)"
    by (auto simp: reaches_minimum_check_def checkConditions_after_signature)
  have none: "sent (chain_holding 100) = []"
    by (simp add: chain_holding_def)
  have allow: "setAllowances ''0xD1'' offer_A ''0xA1'' 50 100 (chain_holding 100) =
      Inr ((151, 151),
           \<lparr>collateralToken = approve ''0xA1'' ''0xD1'' 151 (collateralToken (chain_holding 100)),
            sent = [Approve ''0xA1'' ''0xD1'' 151]\<rparr>)"
    by (simp add: setAllowances_def setAllowanceIfInsufficient_def approveTx_def maker_A
        main_A_amounts chain_holding_def approve_def Let_def)
  have run: "main recovers_maker (diva_reporting Fillable 0) api_A ''0xA1'' 50 (chain_holding 100)
      = (Inr (151, 151),
           \<lparr>collateralToken = approve ''0xA1'' ''0xD1'' 151 (collateralToken (chain_holding 100)),
            sent = [Approve ''0xA1'' ''0xD1'' 151, FillOffer ''0xA1'' 50]\<rparr>)"
    by (simp add: main_def Let_def api_A_fields main_A_amounts diva_reporting_address allow
        maker_A balance_chain_holding checkConditions_A_fillable diva_reporting_fills)
  have "makerFillAmount (offerCreateContingentPool api_A) 50 = Inr 100
         \<and> totalCollateralFillAmount (offerCreateContingentPool api_A) 50 = Inr 150
         \<and> 50 \<le> balanceOf (collateralToken (chain_holding 100))
                    (maker (offerCreateContingentPool api_A))
         \<and> 100 \<le> balanceOf (collateralToken (chain_holding 100))
                     (maker (offerCreateContingentPool api_A))
         \<and> balanceOf (collateralToken (chain_holding 100))
              (maker (offerCreateContingentPool api_A)) < 150
         \<and> main recovers_maker (diva_reporting Fillable 0) api_A
              (maker (offerCreateContingentPool api_A)) 50 (chain_holding 100)
             = (Inr (151, 151),
                \<lparr>collateralToken = approve ''0xA1'' ''0xD1'' 151
                                     (collateralToken (chain_holding 100)),
                 sent = [Approve ''0xA1'' ''0xD1'' 151, FillOffer ''0xA1'' 50]\<rparr>)
         \<and> sent \<lparr>collateralToken = approve ''0xA1'' ''0xD1'' 151
                                     (collateralToken (chain_holding 100)),
                 sent = [Approve ''0xA1'' ''0xD1'' 151, FillOffer ''0xA1'' 50]\<rparr>
             = sent (chain_holding 100) @
               [Approve (maker (offerCreateContingentPool api_A))
                  (diva_address (diva_reporting Fillable 0)) (150 + 1),
                FillOffer (maker (offerCreateContingentPool api_A)) 50]"
    by (simp add: api_A_fields main_A_amounts maker_A balance_chain_holding run
        diva_reporting_address none)
  then have ex:
    "\<exists>verifyTypedData' (diva' :: unit Diva) apiOffer r' c0 makerLeg combined allowances c'.
         makerFillAmount (offerCreateContingentPool apiOffer) r' = Inr makerLeg
         \<and> totalCollateralFillAmount (offerCreateContingentPool apiOffer) r' = Inr combined
         \<and> r' \<le> balanceOf (collateralToken c0) (maker (offerCreateContingentPool apiOffer))
         \<and> makerLeg \<le> balanceOf (collateralToken c0) (maker (offerCreateContingentPool apiOffer))
         \<and> balanceOf (collateralToken c0) (maker (offerCreateContingentPool apiOffer)) < combined
         \<and> main verifyTypedData' diva' apiOffer (maker (offerCreateContingentPool apiOffer)) r' c0
             = (Inr allowances, c')
         \<and> sent c' = sent c0 @ [Approve (maker (offerCreateContingentPool apiOffer))
                                   (diva_address diva') (combined + 1),
                                 FillOffer (maker (offerCreateContingentPool apiOffer)) r']"
    by blast
  from per_leg ex show ?thesis
    by (rule conjI)
qed

theorem self_fill_balance_per_leg_witness:
  "reaches_minimum_check recovers_maker (diva_reporting Fillable 0) (chain_holding 100) domain_A
      offer_A () (maker offer_A) 50
   \<and> \<not> (takerFilledAmount (offerInfo (getOfferRelevantStateCreateContingentPool
             (diva_reporting Fillable 0) (collateralToken (chain_holding 100)) offer_A ())) = 0
        \<and> 50 < minimumTakerFillAmount offer_A)
   \<and> (50::nat) \<le> 100 \<and> (100::nat) \<le> 100
   \<and> totalCollateralFillAmount offer_A 50 = Inr 150 \<and> (100::nat) < 150
   \<and> checkConditions recovers_maker (diva_reporting Fillable 0) (chain_holding 100) domain_A
        offer_A () (maker offer_A) 50 100 100 100 = Inr ()"
proof -
  have reach: "reaches_minimum_check recovers_maker (diva_reporting Fillable 0)
                 (chain_holding 100) domain_A offer_A () (maker offer_A) 50"
    by (simp add: reaches_minimum_check_A)
  have not_below: "\<not> (takerFilledAmount (offerInfo (getOfferRelevantStateCreateContingentPool
             (diva_reporting Fillable 0) (collateralToken (chain_holding 100)) offer_A ())) = 0
        \<and> 50 < minimumTakerFillAmount offer_A)"
    by (simp add: offer_A_def)
  from reach not_below
    self_fill_balance_per_leg [THEN conjunct1, of recovers_maker "diva_reporting Fillable 0"
      "chain_holding 100" domain_A offer_A "()" 50 100 100]
  have passes: "checkConditions recovers_maker (diva_reporting Fillable 0) (chain_holding 100)
        domain_A offer_A () (maker offer_A) 50 100 100 100 = Inr ()"
    by simp
  from reach not_below passes show ?thesis
    by (simp add: main_A_amounts)
qed

end
